theory Spec2Isabelle
  imports Complex_Main
begin

section \<open>Conventions\<close>

text \<open>
  The development embeds the wallet-monitoring service (rate limiter, API keys and billing,
  RPC circuit breaker, alert state, alert gauntlet, signal API and profit estimator).

  Python \<open>float\<close> values (timestamps, profits, balances) are modelled by \<open>real\<close>, Python
  \<open>int\<close> by \<open>int\<close>, a \<open>dict\<close> by a map or, where insertion order matters
  (\<open>OrderedDict\<close>), by an association list with distinct keys.  Every clock reading
  (\<open>time.time()\<close>) is an explicit argument of the function that reads it.
\<close>

section \<open>Rate limiter (rate\_limiter.py)\<close>

record limits_cfg =
  rate_limit_free :: int
  rate_limit_pro :: int
  rate_limit_elite :: int

text \<open>\<open>self._counters\<close>: key hash to \<open>(count, reset_time)\<close>.\<close>

type_synonym counters = "string \<rightharpoonup> int \<times> real"

text \<open>\<open>self.limits.get(tier, self.limits["free"])\<close>.\<close>

definition tier_limit :: "limits_cfg \<Rightarrow> string \<Rightarrow> int" where
  "tier_limit cfg tier =
     (if tier = ''free'' then rate_limit_free cfg
      else if tier = ''pro'' then rate_limit_pro cfg
      else if tier = ''elite'' then rate_limit_elite cfg
      else rate_limit_free cfg)"

text \<open>
  Reading the \<open>defaultdict\<close>: a missing key yields \<open>(0, time.time())\<close>; \<open>now\<close> is that
  clock reading.
\<close>

definition counters_get :: "counters \<Rightarrow> real \<Rightarrow> string \<Rightarrow> int \<times> real" where
  "counters_get c now h = (case c h of None \<Rightarrow> (0, now) | Some e \<Rightarrow> e)"

text \<open>
  \<open>RateLimiter.check_limit\<close>.  \<open>reset_time\<close> is the value returned by
  \<open>_get_reset_time()\<close> (the start of the current UTC day).  The result is
  \<open>((allowed, remaining, limit), counters')\<close>.
\<close>

definition check_limit ::
  "limits_cfg \<Rightarrow> counters \<Rightarrow> real \<Rightarrow> real \<Rightarrow> string \<Rightarrow> string
     \<Rightarrow> (bool \<times> int \<times> int) \<times> counters" where
  "check_limit cfg c now reset_time api_key_hash tier =
     (let limit = tier_limit cfg tier;
          (count0, last_reset0) = counters_get c now api_key_hash;
          (count1, last_reset) =
             (if last_reset0 < reset_time then (0, reset_time) else (count0, last_reset0));
          remaining = max 0 (limit - count1);
          allowed = (count1 < limit);
          count2 = (if allowed then count1 + 1 else count1)
      in ((allowed, remaining, limit), c(api_key_hash \<mapsto> (count2, last_reset))))"


text \<open>
  A run of requests \<open>(key hash, tier, clock)\<close> served in sequence within one day; the
  number of those admitted for the key hash \<open>h\<close>.
\<close>

fun admitted ::
  "limits_cfg \<Rightarrow> real \<Rightarrow> string \<Rightarrow> counters \<Rightarrow> (string \<times> string \<times> real) list \<Rightarrow> nat" where
  "admitted cfg D h c [] = 0"
| "admitted cfg D h c ((k, tier, now) # rest) =
     (let r = check_limit cfg c now D k tier
      in (if fst (fst r) \<and> k = h then 1 else 0) + admitted cfg D h (snd r) rest)"

section \<open>Alert state (wallet\_monitor.py)\<close>

text \<open>
  A signature entry of \<open>getSignaturesForAddress\<close>: \<open>entry.get("signature")\<close>,
  \<open>entry.get("slot")\<close>; \<open>None\<close> is a missing key.
\<close>

record sig_entry =
  signature :: "string option"
  slot :: "int option"

text \<open>Python truthiness of \<open>entry.get("signature")\<close>: neither missing nor empty.\<close>

definition truthy :: "string option \<Rightarrow> bool" where
  "truthy s = (case s of None \<Rightarrow> False | Some x \<Rightarrow> x \<noteq> [])"

text \<open>
  The \<open>for entry in signatures\<close> loop of \<open>filter_new_signatures\<close>: entries without a
  signature are skipped (\<open>continue\<close>), the loop stops at the last-seen one (\<open>break\<close>).
\<close>

fun newer_than :: "string \<Rightarrow> sig_entry list \<Rightarrow> sig_entry list" where
  "newer_than last_sig [] = []"
| "newer_than last_sig (entry # rest) =
     (if \<not> truthy (signature entry) then newer_than last_sig rest
      else if signature entry = Some last_sig then []
      else entry # newer_than last_sig rest)"

text \<open>
  \<open>filter_new_signatures\<close>, with the global \<open>_last_sig_by_wallet\<close> passed in and returned.
\<close>

definition filter_new_signatures ::
  "(string \<rightharpoonup> string) \<Rightarrow> string \<Rightarrow> sig_entry list
     \<Rightarrow> sig_entry list \<times> (string \<rightharpoonup> string)" where
  "filter_new_signatures last_sig_by_wallet wallet signatures =
     (case signatures of
        [] \<Rightarrow> ([], last_sig_by_wallet)
      | head # _ \<Rightarrow>
          (let subset = (case last_sig_by_wallet wallet of
                           None \<Rightarrow> take 5 signatures
                         | Some last_sig \<Rightarrow> newer_than last_sig signatures)
           in (subset,
               (case signature head of
                  None \<Rightarrow> last_sig_by_wallet
                | Some head_sig \<Rightarrow>
                    if head_sig \<noteq> [] then last_sig_by_wallet(wallet \<mapsto> head_sig)
                    else last_sig_by_wallet))))"

text \<open>
  \<open>_seen_signatures\<close> is an \<open>OrderedDict\<close> from signature to timestamp: an association
  list in insertion order, oldest first.  \<open>od_put_last\<close> is the pair of statements
  \<open>d[k] = v; d.move_to_end(k)\<close> (the key is present after the assignment, so
  \<open>move_to_end\<close> cannot raise): the key ends up last, with the new value.
\<close>

type_synonym seen = "(string \<times> real) list"

definition od_put_last :: "seen \<Rightarrow> string \<Rightarrow> real \<Rightarrow> seen" where
  "od_put_last d k v = filter (\<lambda>(k', _). k' \<noteq> k) d @ [(k, v)]"

text \<open>
  \<open>while len(d) > MAX_SEEN_SIGNATURES: d.popitem(last=False)\<close>.  \<open>popitem\<close> on an empty
  dictionary raises \<open>KeyError\<close> (reachable only for a negative bound): \<open>None\<close>.
\<close>

fun evict_oldest :: "int \<Rightarrow> seen \<Rightarrow> seen option" where
  "evict_oldest mx [] = (if 0 > mx then None else Some [])"
| "evict_oldest mx (e # rest) =
     (if int (length (e # rest)) > mx then evict_oldest mx rest else Some (e # rest))"

record alert_state =
  last_alert_at :: "string \<rightharpoonup> real"
  seen_signatures :: seen

text \<open>The \<open>for signature in sigs\<close> loop of \<open>mark_alert\<close>.\<close>

definition mark_seen :: "real \<Rightarrow> string list \<Rightarrow> seen \<Rightarrow> seen" where
  "mark_seen timestamp sigs d = foldl (\<lambda>d s. od_put_last d s timestamp) d sigs"

text \<open>
  \<open>mark_alert\<close>; \<open>timestamp\<close> is its reading of \<open>time.time()\<close>, \<open>mx\<close> is
  \<open>MAX_SEEN_SIGNATURES\<close>.
\<close>

definition mark_alert ::
  "int \<Rightarrow> real \<Rightarrow> alert_state \<Rightarrow> string \<Rightarrow> string list \<Rightarrow> alert_state option" where
  "mark_alert mx timestamp st wallet sigs =
     (case evict_oldest mx (mark_seen timestamp sigs (seen_signatures st)) of
        None \<Rightarrow> None
      | Some d \<Rightarrow>
          Some (st\<lparr>last_alert_at := (last_alert_at st)(wallet \<mapsto> timestamp),
                   seen_signatures := d\<rparr>))"

text \<open>
  \<open>should_alert\<close>; \<open>now\<close> is its clock reading, \<open>cooldown\<close> is \<open>ALERT_COOLDOWN_SEC\<close>.
\<close>

definition should_alert :: "int \<Rightarrow> real \<Rightarrow> alert_state \<Rightarrow> string \<Rightarrow> string list \<Rightarrow> bool" where
  "should_alert cooldown now st wallet new_sigs =
     (if new_sigs = [] then False
      else if \<exists>s \<in> set new_sigs. s \<in> fst ` set (seen_signatures st) then False
      else if now - (case last_alert_at st wallet of None \<Rightarrow> 0 | Some t \<Rightarrow> t) < real_of_int cooldown
        then False
      else True)"

section \<open>RPC circuit breaker (wallet\_monitor.py, AsyncRpcManager)\<close>

datatype breaker = Closed | HalfOpen | Open

text \<open>One entry of \<open>circuit_state\<close>: \<open>{"failures", "opened_at", "state"}\<close>.\<close>

record circuit =
  failures :: int
  opened_at :: real
  state :: breaker

text \<open>
  \<open>circuit_state\<close> is a \<open>defaultdict\<close>: a total function whose default entry is the
  closed circuit.
\<close>

record rpc_manager =
  endpoints :: "string list"
  index :: nat
  circuit_state :: "string \<Rightarrow> circuit"

definition closed_circuit :: circuit where
  "closed_circuit = \<lparr>failures = 0, opened_at = 0, state = Closed\<rparr>"

definition new_manager :: "string list \<Rightarrow> rpc_manager" where
  "new_manager eps =
     \<lparr>endpoints = (if eps = [] then [''https://api.mainnet-beta.solana.com''] else eps),
      index = 0, circuit_state = (\<lambda>_. closed_circuit)\<rparr>"

definition rotate_endpoint :: "rpc_manager \<Rightarrow> rpc_manager" where
  "rotate_endpoint m =
     (if length (endpoints m) \<le> 1 then m
      else m\<lparr>index := (index m + 1) mod length (endpoints m)\<rparr>)"

text \<open>
  \<open>_allow_request\<close>; \<open>pause\<close> is \<open>RPC_CIRCUIT_BREAKER_PAUSE_SEC\<close>, \<open>now\<close> the clock.
\<close>

definition allow_request :: "real \<Rightarrow> real \<Rightarrow> rpc_manager \<Rightarrow> string \<Rightarrow> bool \<times> rpc_manager" where
  "allow_request pause now m endpoint =
     (let st = circuit_state m endpoint
      in if state st = Open then
           (if now - opened_at st \<ge> pause
            then (True, m\<lparr>circuit_state := (circuit_state m)(endpoint := st\<lparr>state := HalfOpen\<rparr>)\<rparr>)
            else (False, m))
         else (True, m))"

text \<open>
  \<open>_record_failure\<close>; \<open>n_cb\<close> is \<open>RPC_CIRCUIT_BREAKER_FAILURES\<close>.  (The error counter
  and the log line are metrics only.)
\<close>

definition record_failure :: "int \<Rightarrow> real \<Rightarrow> rpc_manager \<Rightarrow> string \<Rightarrow> rpc_manager" where
  "record_failure n_cb now m endpoint =
     (let st = (circuit_state m endpoint)\<lparr>failures := failures (circuit_state m endpoint) + 1\<rparr>
      in if failures st \<ge> n_cb
         then rotate_endpoint (m\<lparr>circuit_state :=
                          (circuit_state m)(endpoint := st\<lparr>state := Open, opened_at := now\<rparr>)\<rparr>)
         else m\<lparr>circuit_state := (circuit_state m)(endpoint := st)\<rparr>)"

definition record_success :: "rpc_manager \<Rightarrow> string \<Rightarrow> rpc_manager" where
  "record_success m endpoint =
     m\<lparr>circuit_state := (circuit_state m)(endpoint := closed_circuit)\<rparr>"

text \<open>Failures recorded one after the other on the same endpoint, at the given instants.\<close>

fun record_failures :: "int \<Rightarrow> real list \<Rightarrow> rpc_manager \<Rightarrow> string \<Rightarrow> rpc_manager" where
  "record_failures n_cb [] m endpoint = m"
| "record_failures n_cb (t # ts) m endpoint =
     record_failures n_cb ts (record_failure n_cb t m endpoint) endpoint"


text \<open>
  What every reachable manager satisfies: a circuit that is not closed has reached the
  failure threshold.
\<close>

definition breaker_inv :: "int \<Rightarrow> rpc_manager \<Rightarrow> bool" where
  "breaker_inv n_cb m =
     (\<forall>ep. state (circuit_state m ep) = Closed \<or> n_cb \<le> failures (circuit_state m ep))"

section \<open>API keys (api\_auth.py) and billing (billing.py)\<close>

text \<open>
  The two tables of the key store, as lists of rows in row-id order.  \<open>hashlib.sha256\<close>
  is a library function: \<open>hash_key\<close> is a parameter of every operation that hashes.  The
  column \<open>api_key_id\<close> of a subscription holds whatever the billing code stores there.
  The store is taken to carry the billing schema of \<open>BillingService._init_db\<close>.
\<close>

record api_key_row =
  key_hash :: string
  key_tier :: string
  created_at :: real
  expires_at :: "real option"
  is_active :: int

record subscription_row =
  api_key_id :: string
  stripe_customer_id :: "string option"
  stripe_subscription_id :: "string option"
  sub_tier :: string
  status :: string
  sub_created_at :: real
  updated_at :: real

record key_db =
  api_keys :: "api_key_row list"
  subscriptions :: "subscription_row list"



text \<open>
  \<open>ApiAuth.validate_key\<close>: \<open>fetchone()\<close> is the first matching row; \<open>if expires_at and
  ...\<close> treats a zero expiry like a missing one.
\<close>

definition validate_key ::
  "(string \<Rightarrow> string) \<Rightarrow> key_db \<Rightarrow> real \<Rightarrow> string \<Rightarrow> (string \<times> bool) option" where
  "validate_key hash_key db now api_key =
     (case find (\<lambda>r. key_hash r = hash_key api_key) (api_keys db) of
        None \<Rightarrow> None
      | Some r \<Rightarrow>
          if (case expires_at r of None \<Rightarrow> False | Some e \<Rightarrow> e \<noteq> 0 \<and> now > e) then None
          else if is_active r = 0 then None
          else Some (key_tier r, is_active r \<noteq> 0))"











section \<open>Alert engine: the per-batch gauntlet (wallet\_monitor.py, scan\_wallet\_async)\<close>

text \<open>The dictionary \<open>confidence_reasons\<close> returned by the profit estimator.\<close>

record confidence_reasons =
  cr_price_coverage :: real
  cr_route_complexity :: real
  cr_fee_completeness :: real
  cr_balance_alignment :: real
  cr_total_tokens :: nat
  cr_priced_tokens :: nat
  cr_unique_mints :: nat
  cr_total_inner_inst :: nat

text \<open>
  The tuple returned by \<open>estimate_profit_async\<close>:
  \<open>(profit, pnl_confidence, counterparties, programs, confidence_reasons)\<close>.
\<close>

record estimate =
  est_profit :: real
  est_confidence :: string
  est_counterparties :: "string list"
  est_programs :: "string list"
  est_reasons :: confidence_reasons

text \<open>The dictionary \<open>alert_event\<close>, key by key.\<close>

record alert_event =
  a_wallet :: string
  a_profit :: real
  a_dex :: string
  a_win_rate :: real
  a_timestamp :: real
  a_counterparties :: "string list"
  a_signal_type :: string
  a_zscore :: real
  a_signature :: string
  a_detect_ms :: real
  a_pnl_confidence :: string
  a_confidence_reasons :: confidence_reasons
  a_dry_run :: bool
  a_tier :: string

text \<open>An entry of \<open>_blocked_alerts\<close> (its \<open>details\<close> repeat values of the call).\<close>

record blocked_alert =
  bl_wallet :: string
  bl_profit :: real
  bl_reason :: string
  bl_timestamp :: real

record alert_cfg =
  gain_filter :: real
  win_rate_filter :: real
  profit_alert_threshold :: real
  alert_cooldown_sec :: int
  max_seen_signatures :: int
  cfg_dry_run :: bool
  cfg_daas_mode :: bool

text \<open>The row of the wallet in the data frame: \<open>net_total\<close>, \<open>win_rate\<close>, \<open>dex\<close>.\<close>

record wallet_row =
  wr_net_total :: real
  wr_win_rate :: real
  wr_dex :: string

text \<open>
  The state a scan reads and writes: the \<open>alerts\<close> list, the optional \<open>alerts_queue\<close>
  shared with the API service, \<open>_blocked_alerts\<close>, the alert state and
  \<open>_profit_history\<close>.  Metrics, log files, chat webhooks and the watchlist are outside
  this state.
\<close>

record scan_state =
  alerts :: "alert_event list"
  alerts_queue :: "alert_event list option"
  blocked_alerts :: "blocked_alert list"
  engine :: alert_state
  profit_history :: "string \<rightharpoonup> real list"

text \<open>
  What one pass of the \<open>for batch in batches\<close> loop reads from outside: the batch, the
  result of \<open>estimate_profit_async\<close> on it (\<open>None\<close> when it raised), the clock readings,
  and whether an effect that follows the emission (log write, webhook, activity probe)
  raised.
\<close>

record batch_input =
  b_sigs :: "sig_entry list"
  b_estimate :: "estimate option"
  clk_should_alert :: real
  clk_blocked :: real
  clk_loop_start :: real
  clk_detect_ms :: real
  clk_mark :: real
  b_effect_raised :: bool

definition program_map :: "string \<Rightarrow> string" where
  "program_map p =
     (if p = ''JUP4Fb2cqiRUcaTHdrPC8h2gK4G8cCxfXk8XQf2Zx1i'' then ''Jupiter''
      else if p = ''rvk5K9sH1t7h8GmHh5w7bqgTt3m1oJ2qkNoRayDiUM'' then ''Raydium''
      else if p = ''9xQeWvG816bUx9EPfDdC1WJ4VqV6g5Gz5X5H5Q5tLCH'' then ''OpenBook''
      else if p = ''orcaEKTdNdXBgaAwyQUpfCw9W7jfvAbzGt9xa1sG9W'' then ''Orca''
      else if p = ''tensorFLkNft111111111111111111111111111111'' then ''Tensor''
      else if p = ''MEisE1HzehtrDpAAT8PnLHjpSSkRYakotTuJRPjTpo8'' then ''MagicEden''
      else if p = ''ComputeBudget111111111111111111111111111111'' then ''System''
      else if p = ''SysvarRent111111111111111111111111111111111'' then ''System''
      else ''Unknown'')"

text \<open>
  \<open>max(counts.items(), key=...)\<close> over a \<open>Counter\<close>: the first label, in order of first
  occurrence, whose count is maximal.
\<close>

fun first_max :: "string list \<Rightarrow> string list \<Rightarrow> string \<Rightarrow> string" where
  "first_max labels [] best = best"
| "first_max labels (k # ks) best =
     first_max labels ks (if count_list labels k > count_list labels best then k else best)"

definition label_from_programs :: "string list \<Rightarrow> string" where
  "label_from_programs programs =
     (if programs = [] then ''Unknown''
      else (case filter (\<lambda>l. l \<noteq> ''System'' \<and> l \<noteq> ''Unknown'') (map program_map programs) of
              [] \<Rightarrow> ''Unknown''
            | l # ls \<Rightarrow> first_max (l # ls) (rev (remdups (rev (l # ls)))) l))"

definition classify_signal :: "string \<Rightarrow> string" where
  "classify_signal dex =
     (if dex \<in> {''Tensor'', ''MagicEden'', ''Blur''} then ''Scalper NFT''
      else if dex \<in> {''Jupiter'', ''Raydium'', ''OpenBook'', ''Orca''} then ''AMM / Aggregator''
      else ''Signal'')"

definition pstdev :: "real list \<Rightarrow> real" where
  "pstdev xs =
     (let mu = sum_list xs / real (length xs)
      in sqrt (sum_list (map (\<lambda>x. (x - mu)\<^sup>2) xs) / real (length xs)))"

text \<open>\<open>compute_zscore\<close>; the history is a \<open>deque(maxlen=50)\<close>.\<close>

definition compute_zscore ::
  "(string \<rightharpoonup> real list) \<Rightarrow> string \<Rightarrow> real \<Rightarrow> real \<times> (string \<rightharpoonup> real list)" where
  "compute_zscore hist wallet profit =
     (let history = (case hist wallet of None \<Rightarrow> [] | Some h \<Rightarrow> h);
          z = (if length history \<ge> 2
               then (let mean = sum_list history / real (length history);
                         std = pstdev history
                     in if std \<noteq> 0 then (profit - mean) / std else 0)
               else 0);
          appended = history @ [profit]
      in (z, hist(wallet \<mapsto> (if length appended > 50 then tl appended else appended))))"

definition block :: "scan_state \<Rightarrow> string \<Rightarrow> real \<Rightarrow> string \<Rightarrow> real \<Rightarrow> scan_state" where
  "block st wallet profit reason ts =
     st\<lparr>blocked_alerts := blocked_alerts st @
          [\<lparr>bl_wallet = wallet, bl_profit = profit, bl_reason = reason, bl_timestamp = ts\<rparr>]\<rparr>"

text \<open>
  \<open>alerts_queue.append(alert_event)\<close> followed by \<open>pop(0)\<close> above 1000 entries, done only
  in DaaS mode with a queue.
\<close>

definition push_queue :: "bool \<Rightarrow> alert_event list option \<Rightarrow> alert_event \<Rightarrow> alert_event list option" where
  "push_queue daas q ev =
     (case q of
        None \<Rightarrow> None
      | Some xs \<Rightarrow>
          if daas then Some (if length (xs @ [ev]) > 1000 then tl (xs @ [ev]) else xs @ [ev])
          else Some xs)"

text \<open>
  The emission (from \<open>compute_zscore\<close> to the end of the loop body), reached when every
  filter has passed.  The result is the new state and whether an exception left the scan:
  \<open>mark_alert\<close> on a negative bound, \<open>send_alert\<close> (called with a keyword it does not
  accept, when \<open>DRY_RUN\<close> is off), or a later effect.
\<close>

definition emit_alert ::
  "alert_cfg \<Rightarrow> string \<Rightarrow> real \<Rightarrow> string \<Rightarrow> scan_state \<Rightarrow> batch_input \<Rightarrow> estimate
     \<Rightarrow> string list \<Rightarrow> scan_state \<times> bool" where
  "emit_alert cfg wallet win_rate dex st b e new_sigs =
     (let zh = compute_zscore (profit_history st) wallet (est_profit e);
          alert = \<lparr>a_wallet = wallet, a_profit = est_profit e, a_dex = dex,
                   a_win_rate = win_rate, a_timestamp = clk_loop_start b,
                   a_counterparties = take 10 (est_counterparties e),
                   a_signal_type = classify_signal dex, a_zscore = fst zh,
                   a_signature = hd new_sigs, a_detect_ms = clk_detect_ms b,
                   a_pnl_confidence = est_confidence e,
                   a_confidence_reasons = est_reasons e,
                   a_dry_run = cfg_dry_run cfg, a_tier = ''free''\<rparr>;
          st1 = st\<lparr>alerts := alerts st @ [alert],
                   alerts_queue := push_queue (cfg_daas_mode cfg) (alerts_queue st) alert,
                   profit_history := snd zh\<rparr>
      in case mark_alert (max_seen_signatures cfg) (clk_mark b) (engine st) wallet new_sigs of
           None \<Rightarrow>
             (st1\<lparr>engine := \<lparr>last_alert_at = (last_alert_at (engine st))(wallet \<mapsto> clk_mark b),
                              seen_signatures = []\<rparr>\<rparr>, True)
         | Some eng \<Rightarrow> (st1\<lparr>engine := eng\<rparr>, \<not> cfg_dry_run cfg \<or> b_effect_raised b))"

text \<open>
  \<open>new_sigs = [s.get("signature") for s in batch if s.get("signature")]\<close>.
\<close>

definition batch_signatures :: "sig_entry list \<Rightarrow> string list" where
  "batch_signatures batch =
     concat (map (\<lambda>s. case signature s of None \<Rightarrow> []
                       | Some x \<Rightarrow> if x \<noteq> [] then [x] else []) batch)"

text \<open>One pass of the loop body: the filters in the order of the source.\<close>

definition process_batch ::
  "alert_cfg \<Rightarrow> string \<Rightarrow> wallet_row option \<Rightarrow> scan_state \<Rightarrow> batch_input \<Rightarrow> scan_state \<times> bool" where
  "process_batch cfg wallet row st b =
     (case b_estimate b of
        None \<Rightarrow> (st, False)
      | Some e \<Rightarrow>
         (let new_sigs = batch_signatures (b_sigs b);
              net_total = (case row of None \<Rightarrow> 0 | Some r \<Rightarrow> wr_net_total r);
              win_rate = (case row of None \<Rightarrow> 0 | Some r \<Rightarrow> wr_win_rate r);
              profit = est_profit e;
              pnl_confidence = est_confidence e;
              dex0 = label_from_programs (est_programs e);
              dex = (case row of None \<Rightarrow> dex0
                     | Some r \<Rightarrow> if dex0 = ''Unknown'' then wr_dex r else dex0)
          in if new_sigs = [] then (st, False)
             else if net_total < gain_filter cfg \<or> win_rate < win_rate_filter cfg
               then (block st wallet profit ''wallet_filtered'' (clk_blocked b), False)
             else if profit < profit_alert_threshold cfg
               then (block st wallet profit ''profit_below_threshold'' (clk_blocked b), False)
             else if pnl_confidence \<noteq> ''med'' \<and> pnl_confidence \<noteq> ''high''
               then (block st wallet profit ''confidence_too_low'' (clk_blocked b), False)
             else if \<not> should_alert (alert_cooldown_sec cfg) (clk_should_alert b)
                         (engine st) wallet new_sigs
               then (block st wallet profit ''cooldown'' (clk_blocked b), False)
             else emit_alert cfg wallet win_rate dex st b e new_sigs))"

text \<open>The loop over the batches; an exception ends it.\<close>

fun process_batches ::
  "alert_cfg \<Rightarrow> string \<Rightarrow> wallet_row option \<Rightarrow> scan_state \<Rightarrow> batch_input list \<Rightarrow> scan_state \<times> bool" where
  "process_batches cfg wallet row st [] = (st, False)"
| "process_batches cfg wallet row st (b # bs) =
     (case process_batch cfg wallet row st b of
        (st1, True) \<Rightarrow> (st1, True)
      | (st1, False) \<Rightarrow> process_batches cfg wallet row st1 bs)"

text \<open>The two conditions of an emitted alert.\<close>

definition gated :: "alert_cfg \<Rightarrow> alert_event \<Rightarrow> bool" where
  "gated cfg a = (profit_alert_threshold cfg \<le> a_profit a
                  \<and> (a_pnl_confidence a = ''med'' \<or> a_pnl_confidence a = ''high''))"

section \<open>Signal API (api\_service.py)\<close>

text \<open>
  A response as the handler builds it: the status, the headers and the Python object it
  hands to \<open>json.dumps\<close> (\<open>{"error": ...}\<close> or \<open>{"signals": ..., "count": ...}\<close>).  A
  header value is a string or the \<open>str\<close> of an integer.
\<close>

datatype header_value = HStr string | HInt int

datatype payload = ErrorPayload string | SignalsPayload "alert_event list" nat

record http_response =
  resp_status :: nat
  resp_headers :: "(string \<times> header_value) list"
  resp_payload :: payload


text \<open>\<open>ApiHandler._authenticate\<close>; the argument is \<open>self.headers.get("x-api-key")\<close>.\<close>

definition authenticate ::
  "(string \<Rightarrow> string) \<Rightarrow> key_db \<Rightarrow> real \<Rightarrow> string option \<Rightarrow> (string \<times> string \<times> bool) option" where
  "authenticate hash_key db now header =
     (case header of
        None \<Rightarrow> None
      | Some api_key \<Rightarrow>
          if api_key = [] then None
          else (case validate_key hash_key db now api_key of
                  None \<Rightarrow> None
                | Some (tr, active) \<Rightarrow> Some (api_key, tr, active)))"

text \<open>\<open>alerts_queue[-100:]\<close>.\<close>

definition last_100 :: "'a list \<Rightarrow> 'a list" where
  "last_100 xs = drop (length xs - 100) xs"

text \<open>
  \<open>ApiHandler._handle_signals\<close>: the response and the rate limiter's counters afterwards.
\<close>

definition handle_signals ::
  "(string \<Rightarrow> string) \<Rightarrow> key_db \<Rightarrow> limits_cfg \<Rightarrow> counters \<Rightarrow> real \<Rightarrow> real \<Rightarrow> string option
     \<Rightarrow> alert_event list \<Rightarrow> http_response \<times> counters" where
  "handle_signals hash_key db cfg c now reset_time header queue =
     (case authenticate hash_key db now header of
        None \<Rightarrow>
          (\<lparr>resp_status = 401, resp_headers = [(''Content-type'', HStr ''application/json'')],
            resp_payload = ErrorPayload ''Unauthorized''\<rparr>, c)
      | Some (api_key, tr, active) \<Rightarrow>
          (case check_limit cfg c now reset_time (hash_key api_key) tr of
             ((allowed, remaining, limit), c') \<Rightarrow>
               if \<not> allowed then
                 (\<lparr>resp_status = 429,
                   resp_headers = [(''Content-type'', HStr ''application/json''),
                                   (''X-RateLimit-Remaining'', HStr ''0''),
                                   (''X-RateLimit-Limit'', HInt limit)],
                   resp_payload = ErrorPayload ''Rate limit exceeded''\<rparr>, c')
               else
                 (let signals = last_100 queue
                  in (\<lparr>resp_status = 200,
                       resp_headers = [(''Content-type'', HStr ''application/json''),
                                       (''X-RateLimit-Remaining'', HInt remaining),
                                       (''X-RateLimit-Limit'', HInt limit)],
                       resp_payload = SignalsPayload signals (length signals)\<rparr>, c'))))"

section \<open>Example inputs\<close>

definition w_cfg :: alert_cfg where
  "w_cfg = \<lparr>gain_filter = 5, win_rate_filter = 80, profit_alert_threshold = 2,
            alert_cooldown_sec = 300, max_seen_signatures = 50000, cfg_dry_run = True,
            cfg_daas_mode = True\<rparr>"

definition w_reasons :: confidence_reasons where
  "w_reasons = \<lparr>cr_price_coverage = 1, cr_route_complexity = 0, cr_fee_completeness = 1,
                cr_balance_alignment = 1, cr_total_tokens = 0, cr_priced_tokens = 0,
                cr_unique_mints = 0, cr_total_inner_inst = 0\<rparr>"

definition w_batch :: "string \<Rightarrow> real \<Rightarrow> string \<Rightarrow> batch_input" where
  "w_batch sg p conf =
     \<lparr>b_sigs = [\<lparr>signature = Some sg, slot = Some 7\<rparr>],
      b_estimate = Some \<lparr>est_profit = p, est_confidence = conf, est_counterparties = [],
                         est_programs = [], est_reasons = w_reasons\<rparr>,
      clk_should_alert = 1000, clk_blocked = 1000, clk_loop_start = 1000, clk_detect_ms = 12,
      clk_mark = 1000, b_effect_raised = False\<rparr>"

definition w_state :: scan_state where
  "w_state = \<lparr>alerts = [], alerts_queue = Some [], blocked_alerts = [],
              engine = \<lparr>last_alert_at = Map.empty, seen_signatures = []\<rparr>,
              profit_history = Map.empty\<rparr>"

definition w_row :: "wallet_row option" where
  "w_row = Some \<lparr>wr_net_total = 10, wr_win_rate = 90, wr_dex = ''Jupiter''\<rparr>"


definition w_alert :: alert_event where
  "w_alert = \<lparr>a_wallet = ''W1'', a_profit = 3, a_dex = ''Jupiter'', a_win_rate = 90,
              a_timestamp = 1000, a_counterparties = [''C1'', ''C2''],
              a_signal_type = ''AMM / Aggregator'', a_zscore = 1, a_signature = ''s3'',
              a_detect_ms = 12, a_pnl_confidence = ''high'', a_confidence_reasons = w_reasons,
              a_dry_run = True, a_tier = ''free''\<rparr>"

text \<open>A key store with one free-tier and one elite-tier key, under a toy hash.\<close>

definition w_hash :: "string \<Rightarrow> string" where
  "w_hash s = CHR ''#'' # s"

definition w_keys :: key_db where
  "w_keys = \<lparr>api_keys = [\<lparr>key_hash = ''#daas_free'', key_tier = ''free'', created_at = 1,
                           expires_at = None, is_active = 1\<rparr>,
                          \<lparr>key_hash = ''#daas_elite'', key_tier = ''elite'', created_at = 1,
                           expires_at = None, is_active = 1\<rparr>],
             subscriptions = []\<rparr>"

definition w_limits :: limits_cfg where
  "w_limits = \<lparr>rate_limit_free = 10, rate_limit_pro = 1000, rate_limit_elite = 10000\<rparr>"

section \<open>Profit estimator (profit\_estimator.py)\<close>

text \<open>
  A parsed token-balance record (\<open>parse_token_balance\<close>): owner, mint, ui-amount,
  decimals.
\<close>

record token_balance =
  tb_owner :: string
  tb_mint :: string
  tb_amount :: real
  tb_decimals :: int

text \<open>
  An instruction of the message: \<open>inst.get("programIdIndex")\<close> and
  \<open>inst.get("programId")\<close>.
\<close>

record instruction =
  ins_program_id_index :: "int option"
  ins_program_id :: "string option"

text \<open>
  A transaction as the estimator reads it: \<open>meta.preBalances\<close>, \<open>meta.postBalances\<close>,
  the account keys, the token balances, \<open>meta.get("fee")\<close> (\<open>None\<close> when the key is
  missing), the inner-instruction groups (each by the number of its instructions) and the
  top-level instructions.
\<close>

record tx_detail =
  tx_pre_balances :: "int list"
  tx_post_balances :: "int list"
  tx_account_keys :: "string list"
  tx_pre_token_balances :: "token_balance list"
  tx_post_token_balances :: "token_balance list"
  tx_fee :: "int option"
  tx_inner_instructions :: "nat list"
  tx_instructions :: "instruction list"

definition WSOL_MINT :: string where
  "WSOL_MINT = ''So11111111111111111111111111111111111111112''"

text \<open>\<open>TokenPriceCache\<close>: mint to \<open>(price_sol, last_seen)\<close>.\<close>

type_synonym price_cache = "string \<rightharpoonup> real \<times> real"

definition get_price :: "price_cache \<Rightarrow> real \<Rightarrow> real \<Rightarrow> string \<Rightarrow> real option" where
  "get_price cache now ttl_seconds mint =
     (case cache mint of
        None \<Rightarrow> None
      | Some (price_sol, last_seen) \<Rightarrow>
          if ttl_seconds \<noteq> 0 \<and> now - last_seen > ttl_seconds then None else Some price_sol)"

definition set_price :: "price_cache \<Rightarrow> real \<Rightarrow> string \<Rightarrow> real \<Rightarrow> price_cache" where
  "set_price cache now mint price_sol = cache(mint \<mapsto> (price_sol, now))"

text \<open>
  What the estimator reads from outside: the two price oracles (network calls), the
  stripped \<open>BIRDEYE_API_KEY\<close>, the clock and \<open>BALANCE_TOLERANCE_PCT\<close>.
\<close>

record price_env =
  jupiter :: "string \<Rightarrow> real option"
  birdeye_key :: string
  birdeye :: "string \<Rightarrow> real option"
  env_now :: real
  balance_tolerance_pct :: real

fun index_of :: "'a \<Rightarrow> 'a list \<Rightarrow> nat option" where
  "index_of x [] = None"
| "index_of x (y # ys) = (if x = y then Some 0 else map_option Suc (index_of x ys))"

text \<open>\<open>lamport_change\<close>: \<open>keys.index(wallet)\<close> raising \<open>ValueError\<close> gives 0.\<close>

definition lamport_change :: "int list \<Rightarrow> int list \<Rightarrow> string list \<Rightarrow> string \<Rightarrow> real" where
  "lamport_change pre post keys wallet =
     (case index_of wallet keys of
        None \<Rightarrow> 0
      | Some idx \<Rightarrow>
          if idx < length pre \<and> idx < length post
          then real_of_int (post ! idx - pre ! idx) / 10 ^ 9
          else 0)"

text \<open>
  \<open>pre_map\<close> and \<open>post_map\<close> of \<open>estimate_token_delta\<close>: only the wallet's records, so
  the key \<open>(owner, mint)\<close> is the mint; a later record overwrites an earlier one.
\<close>

fun token_map :: "string \<Rightarrow> token_balance list \<Rightarrow> (string \<rightharpoonup> real) \<Rightarrow> (string \<rightharpoonup> real)" where
  "token_map wallet [] m = m"
| "token_map wallet (t # ts) m =
     token_map wallet ts (if tb_owner t = wallet then m(tb_mint t \<mapsto> tb_amount t) else m)"

text \<open>
  The price lookup of the loop: cache (TTL 60), then the first oracle, then the second one
  if a key is configured; a fetched price is written to the cache.
\<close>

definition lookup_price :: "price_env \<Rightarrow> price_cache \<Rightarrow> string \<Rightarrow> real option \<times> price_cache" where
  "lookup_price env cache mint =
     (case get_price cache (env_now env) 60 mint of
        Some price \<Rightarrow> (Some price, cache)
      | None \<Rightarrow>
          (case jupiter env mint of
             Some fetched \<Rightarrow> (Some fetched, set_price cache (env_now env) mint fetched)
           | None \<Rightarrow>
               if birdeye_key env \<noteq> [] then
                 (case birdeye env mint of
                    Some fetched \<Rightarrow> (Some fetched, set_price cache (env_now env) mint fetched)
                  | None \<Rightarrow> (None, cache))
               else (None, cache)))"

text \<open>
  The loop \<open>for owner, mint in all_mints\<close>, on \<open>(delta_sol, delta_wsol_sol, cache)\<close>.
\<close>

fun token_loop ::
  "price_env \<Rightarrow> (string \<rightharpoonup> real) \<Rightarrow> (string \<rightharpoonup> real) \<Rightarrow> string list
     \<Rightarrow> real \<times> real \<times> price_cache \<Rightarrow> real \<times> real \<times> price_cache" where
  "token_loop env pre_map post_map [] acc = acc"
| "token_loop env pre_map post_map (mint # mints) (delta_sol, delta_wsol_sol, cache) =
     (let pre_amount = (case pre_map mint of None \<Rightarrow> 0 | Some a \<Rightarrow> a);
          post_amount = (case post_map mint of None \<Rightarrow> 0 | Some a \<Rightarrow> a);
          token_delta = post_amount - pre_amount
      in if \<bar>token_delta\<bar> < 1 / 10 ^ 9
           then token_loop env pre_map post_map mints (delta_sol, delta_wsol_sol, cache)
         else if mint = WSOL_MINT
           then token_loop env pre_map post_map mints
                  (delta_sol, delta_wsol_sol + token_delta, cache)
         else (case lookup_price env cache mint of
                 (None, cache') \<Rightarrow>
                   token_loop env pre_map post_map mints (delta_sol, delta_wsol_sol, cache')
               | (Some price, cache') \<Rightarrow>
                   token_loop env pre_map post_map mints
                     (delta_sol + token_delta * price, delta_wsol_sol, cache')))"

text \<open>
  \<open>estimate_token_delta\<close>.  \<open>all_mints\<close> is a Python set, iterated in no specified
  order; the model takes the order of first occurrence (the sums are over reals and each
  mint is looked up once, so the order does not change the result).
\<close>

definition estimate_token_delta ::
  "price_env \<Rightarrow> token_balance list \<Rightarrow> token_balance list \<Rightarrow> string \<Rightarrow> price_cache
     \<Rightarrow> real \<times> real \<times> price_cache" where
  "estimate_token_delta env pre_tokens post_tokens wallet cache =
     (let pre_map = token_map wallet pre_tokens Map.empty;
          post_map = token_map wallet post_tokens Map.empty;
          all_mints = remdups (map tb_mint (filter (\<lambda>t. tb_owner t = wallet)
                                               (pre_tokens @ post_tokens)))
      in token_loop env pre_map post_map all_mints (0, 0, cache))"

text \<open>The accumulators of \<open>estimate_profit_enriched\<close>, with the price cache.\<close>

record est_acc =
  acc_profit :: real
  acc_total_tokens :: nat
  acc_priced_tokens :: nat
  acc_total_inner_inst :: nat
  acc_unique_mints :: "string set"
  acc_fee_known :: bool
  acc_fee_total :: real
  acc_sol_delta_sum :: real
  acc_token_delta_sum :: real
  acc_counterparties :: "string list"
  acc_programs :: "string list"
  acc_cache :: price_cache

definition init_acc :: "price_cache \<Rightarrow> est_acc" where
  "init_acc cache =
     \<lparr>acc_profit = 0, acc_total_tokens = 0, acc_priced_tokens = 0, acc_total_inner_inst = 0,
      acc_unique_mints = {}, acc_fee_known = True, acc_fee_total = 0, acc_sol_delta_sum = 0,
      acc_token_delta_sum = 0, acc_counterparties = [], acc_programs = [], acc_cache = cache\<rparr>"

text \<open>\<open>meta.get("fee", 0)\<close>.\<close>

definition fee_lamports :: "tx_detail \<Rightarrow> int" where
  "fee_lamports tx = (case tx_fee tx of None \<Rightarrow> 0 | Some f \<Rightarrow> f)"

text \<open>\<open>all_tokens_this_tx\<close>: the non-empty mints of all token-balance records.\<close>

definition all_tokens_this_tx :: "tx_detail \<Rightarrow> string list" where
  "all_tokens_this_tx tx =
     remdups (filter (\<lambda>m. m \<noteq> [])
                (map tb_mint (tx_pre_token_balances tx @ tx_post_token_balances tx)))"

text \<open>\<open>program_set\<close>: the account keys at the valid \<open>programIdIndex\<close> values.\<close>

definition program_set :: "tx_detail \<Rightarrow> string list" where
  "program_set tx =
     remdups (concat (map (\<lambda>inst. case ins_program_id_index inst of
                                     None \<Rightarrow> []
                                   | Some idx \<Rightarrow>
                                       if 0 \<le> idx \<and> idx < int (length (tx_account_keys tx))
                                       then [tx_account_keys tx ! nat idx] else [])
                          (tx_instructions tx)))"

text \<open>
  The body of the loop of \<open>estimate_profit_enriched\<close> for one fetched transaction.  (The
  local variable \<open>confidence\<close> of the source is updated in the loop but never read.)
\<close>

definition enriched_step :: "price_env \<Rightarrow> string \<Rightarrow> est_acc \<Rightarrow> tx_detail \<Rightarrow> est_acc" where
  "enriched_step env wallet acc tx =
     (let sol_delta = lamport_change (tx_pre_balances tx) (tx_post_balances tx)
                        (tx_account_keys tx) wallet;
          tokens = all_tokens_this_tx tx;
          (token_delta_sol, delta_wsol_sol, cache) =
             estimate_token_delta env (tx_pre_token_balances tx) (tx_post_token_balances tx)
               wallet (acc_cache acc);
          priced = length (filter (\<lambda>m. get_price cache (env_now env) 0 m \<noteq> None) tokens);
          fee = real_of_int (fee_lamports tx) / 10 ^ 9;
          progs = program_set tx
      in \<lparr>acc_profit = acc_profit acc + sol_delta + token_delta_sol + delta_wsol_sol - fee,
          acc_total_tokens = acc_total_tokens acc + length tokens,
          acc_priced_tokens = acc_priced_tokens acc + priced,
          acc_total_inner_inst = acc_total_inner_inst acc + length (tx_inner_instructions tx),
          acc_unique_mints = acc_unique_mints acc \<union> set tokens,
          acc_fee_known = (if fee = 0 then False else acc_fee_known acc),
          acc_fee_total = acc_fee_total acc + fee,
          acc_sol_delta_sum = acc_sol_delta_sum acc + \<bar>delta_wsol_sol\<bar> + \<bar>sol_delta\<bar>,
          acc_token_delta_sum = acc_token_delta_sum acc + \<bar>token_delta_sol\<bar>,
          acc_counterparties = acc_counterparties acc @
             filter (\<lambda>addr. addr \<noteq> wallet \<and> addr \<notin> set progs) (tx_account_keys tx),
          acc_programs = acc_programs acc @ progs,
          acc_cache = cache\<rparr>)"

text \<open>Python's \<open>xs[:n]\<close> for an integer \<open>n\<close>.\<close>

definition py_prefix :: "int \<Rightarrow> 'a list \<Rightarrow> 'a list" where
  "py_prefix n xs = (if 0 \<le> n then take (nat n) xs else take (length xs - nat (- n)) xs)"

text \<open>
  The transactions the loop processes: for each of \<open>signatures[:max_tx]\<close> with a
  signature, the normalised result of \<open>get_transaction\<close>, when there is one (\<open>rpc\<close> gives
  \<open>None\<close> for a failed call or an empty result).
\<close>

definition processed_txs ::
  "(string \<Rightarrow> tx_detail option) \<Rightarrow> sig_entry list \<Rightarrow> int \<Rightarrow> tx_detail list" where
  "processed_txs rpc signatures max_tx =
     concat (map (\<lambda>sig_info. case signature sig_info of
                                None \<Rightarrow> []
                              | Some s \<Rightarrow> if s = [] then []
                                          else (case rpc s of None \<Rightarrow> [] | Some tx \<Rightarrow> [tx]))
                 (py_prefix max_tx signatures))"

text \<open>The sub-metrics and the label, computed after the loop.\<close>

definition balance_alignment_of :: "real \<Rightarrow> real \<Rightarrow> real \<Rightarrow> real" where
  "balance_alignment_of tolerance total_valorized total_observed =
     (if total_valorized > 0
         \<and> \<bar>total_valorized - total_observed\<bar> / max total_valorized (1 / 10 ^ 9) \<le> tolerance
      then 1 else 1 / 2)"

definition confidence_label :: "real \<Rightarrow> real \<Rightarrow> real \<Rightarrow> real \<Rightarrow> string" where
  "confidence_label price_coverage route_complexity fee_completeness balance_alignment =
     (let score = (2::int)
                   - (if price_coverage < 7 / 10 \<or> route_complexity > 5 then 1 else 0)
                   - (if fee_completeness < 1 \<or> balance_alignment < 8 / 10 then 1 else 0)
      in [''low'', ''med'', ''high''] ! nat (max 0 (min 2 score)))"

definition finish_estimate :: "price_env \<Rightarrow> nat \<Rightarrow> est_acc \<Rightarrow> estimate \<times> price_cache" where
  "finish_estimate env n_sigs acc =
     (let price_coverage = (if acc_total_tokens acc > 0
                            then real (acc_priced_tokens acc) / real (acc_total_tokens acc)
                            else 1);
          route_complexity = min (real (acc_total_inner_inst acc) / real (max n_sigs 1)) 10;
          fee_completeness = (if acc_fee_known acc then 1 else 0);
          total_valorized = \<bar>acc_sol_delta_sum acc\<bar> + acc_token_delta_sum acc;
          total_observed = \<bar>acc_profit acc\<bar> + acc_fee_total acc;
          tolerance = balance_tolerance_pct env / 100;
          balance_alignment = balance_alignment_of tolerance total_valorized total_observed
      in (\<lparr>est_profit = acc_profit acc,
           est_confidence = confidence_label price_coverage route_complexity fee_completeness
                              balance_alignment,
           est_counterparties = remdups (acc_counterparties acc),
           est_programs = remdups (acc_programs acc),
           est_reasons = \<lparr>cr_price_coverage = price_coverage,
                           cr_route_complexity = route_complexity,
                           cr_fee_completeness = fee_completeness,
                           cr_balance_alignment = balance_alignment,
                           cr_total_tokens = acc_total_tokens acc,
                           cr_priced_tokens = acc_priced_tokens acc,
                           cr_unique_mints = card (acc_unique_mints acc),
                           cr_total_inner_inst = acc_total_inner_inst acc\<rparr>\<rparr>,
          acc_cache acc))"

text \<open>
  \<open>estimate_profit_enriched\<close>: the returned tuple and the price cache afterwards.  (The
  two de-duplicated lists come out of \<open>list(set(...))\<close> in no specified order.)
\<close>

definition enriched_acc ::
  "price_env \<Rightarrow> (string \<Rightarrow> tx_detail option) \<Rightarrow> string \<Rightarrow> sig_entry list \<Rightarrow> int \<Rightarrow> price_cache
     \<Rightarrow> est_acc" where
  "enriched_acc env rpc wallet signatures max_tx cache =
     foldl (enriched_step env wallet) (init_acc cache) (processed_txs rpc signatures max_tx)"

definition estimate_profit_enriched ::
  "price_env \<Rightarrow> (string \<Rightarrow> tx_detail option) \<Rightarrow> string \<Rightarrow> sig_entry list \<Rightarrow> int \<Rightarrow> price_cache
     \<Rightarrow> estimate \<times> price_cache" where
  "estimate_profit_enriched env rpc wallet signatures max_tx cache =
     finish_estimate env (length (py_prefix max_tx signatures))
       (enriched_acc env rpc wallet signatures max_tx cache)"

text \<open>
  The sums the specification names, over the processed transactions in order (the price
  cache is threaded through, as in the loop): the signed deltas (native, wrapped-native
  and priced tokens), the absolute native and wrapped-native deltas (\<open>sol_delta_sum\<close>),
  the absolute priced-token deltas (\<open>token_delta_sum\<close>) and the fees in SOL.
\<close>

definition cache_after :: "price_env \<Rightarrow> string \<Rightarrow> price_cache \<Rightarrow> tx_detail \<Rightarrow> price_cache" where
  "cache_after env wallet cache tx =
     snd (snd (estimate_token_delta env (tx_pre_token_balances tx) (tx_post_token_balances tx)
                 wallet cache))"


definition priced_delta :: "price_env \<Rightarrow> string \<Rightarrow> price_cache \<Rightarrow> tx_detail \<Rightarrow> real" where
  "priced_delta env wallet cache tx =
     fst (estimate_token_delta env (tx_pre_token_balances tx) (tx_post_token_balances tx)
            wallet cache)"




fun token_abs_sum :: "price_env \<Rightarrow> string \<Rightarrow> price_cache \<Rightarrow> tx_detail list \<Rightarrow> real" where
  "token_abs_sum env wallet cache [] = 0"
| "token_abs_sum env wallet cache (tx # txs) =
     \<bar>priced_delta env wallet cache tx\<bar>
       + token_abs_sum env wallet (cache_after env wallet cache tx) txs"



text \<open>
  Example inputs of the estimator: no oracle answers, tolerance 10 percent; a transaction
  that raises the wallet's native balance by 3 SOL with a fee of 5000 lamports; the same
  with the 3 SOL arriving as wrapped-native tokens; the native one with an explicit fee of
  0.
\<close>

definition env0 :: price_env where
  "env0 = \<lparr>jupiter = (\<lambda>_. None), birdeye_key = [], birdeye = (\<lambda>_. None), env_now = 1000,
           balance_tolerance_pct = 10\<rparr>"

definition tx_native :: tx_detail where
  "tx_native = \<lparr>tx_pre_balances = [10000000000], tx_post_balances = [13000000000],
      tx_account_keys = [''W1''], tx_pre_token_balances = [], tx_post_token_balances = [],
      tx_fee = Some 5000, tx_inner_instructions = [], tx_instructions = []\<rparr>"



definition sig0 :: sig_entry where
  "sig0 = \<lparr>signature = Some ''s1'', slot = Some 7\<rparr>"

section \<open>The asynchronous estimator (wallet\_monitor.py, estimate\_profit\_async)\<close>

text \<open>
  \<open>estimate_profit_async\<close> repeats the loop of \<open>estimate_profit_enriched\<close> with
  \<open>estimate_token_delta\<close> and \<open>lamport_change\<close> imported from it.  Its body differs in:
  the native delta is added to \<open>sol_delta_sum\<close> signed; priced tokens are counted with the
  default TTL of 60 seconds; \<open>fee_known\<close> is never assigned; inner instructions are
  counted per instruction; programs are the \<open>programId\<close> values and counterparties all
  account keys other than the wallet.
\<close>

definition async_step :: "price_env \<Rightarrow> string \<Rightarrow> est_acc \<Rightarrow> tx_detail \<Rightarrow> est_acc" where
  "async_step env wallet acc tx =
     (let sol_delta = lamport_change (tx_pre_balances tx) (tx_post_balances tx)
                        (tx_account_keys tx) wallet;
          tokens = all_tokens_this_tx tx;
          (token_delta, delta_wsol, cache) =
             estimate_token_delta env (tx_pre_token_balances tx) (tx_post_token_balances tx)
               wallet (acc_cache acc);
          priced = length (filter (\<lambda>m. get_price cache (env_now env) 60 m \<noteq> None) tokens);
          fee = real_of_int (fee_lamports tx) / 10 ^ 9
      in \<lparr>acc_profit = acc_profit acc + sol_delta + token_delta + delta_wsol - fee,
          acc_total_tokens = acc_total_tokens acc + length tokens,
          acc_priced_tokens = acc_priced_tokens acc + priced,
          acc_total_inner_inst = acc_total_inner_inst acc + sum_list (tx_inner_instructions tx),
          acc_unique_mints = acc_unique_mints acc \<union> set tokens,
          acc_fee_known = acc_fee_known acc,
          acc_fee_total = acc_fee_total acc + fee,
          acc_sol_delta_sum = acc_sol_delta_sum acc + sol_delta + \<bar>delta_wsol\<bar>,
          acc_token_delta_sum = acc_token_delta_sum acc + \<bar>token_delta\<bar>,
          acc_counterparties = acc_counterparties acc @
             filter (\<lambda>pk. pk \<noteq> [] \<and> pk \<noteq> wallet) (tx_account_keys tx),
          acc_programs = acc_programs acc @
             concat (map (\<lambda>inst. case ins_program_id inst of
                                     None \<Rightarrow> []
                                   | Some p \<Rightarrow> if p \<noteq> [] then [p] else [])
                         (tx_instructions tx)),
          acc_cache = cache\<rparr>)"

text \<open>
  The transactions its loop processes: \<open>get_transaction\<close> is tried twice (\<open>rpc s 0\<close>,
  then \<open>rpc s 1\<close>); a call that raises counts as no answer.
\<close>

definition async_processed_txs ::
  "(string \<Rightarrow> nat \<Rightarrow> tx_detail option) \<Rightarrow> sig_entry list \<Rightarrow> int \<Rightarrow> tx_detail list" where
  "async_processed_txs rpc signatures max_tx =
     concat (map (\<lambda>sig_info. case signature sig_info of
                                None \<Rightarrow> []
                              | Some s \<Rightarrow>
                                  if s = [] then []
                                  else (case rpc s 0 of
                                          Some tx \<Rightarrow> [tx]
                                        | None \<Rightarrow> (case rpc s 1 of None \<Rightarrow> [] | Some tx \<Rightarrow> [tx])))
                 (py_prefix max_tx signatures))"

definition estimate_profit_async ::
  "price_env \<Rightarrow> (string \<Rightarrow> nat \<Rightarrow> tx_detail option) \<Rightarrow> string \<Rightarrow> sig_entry list \<Rightarrow> int
     \<Rightarrow> price_cache \<Rightarrow> estimate \<times> price_cache" where
  "estimate_profit_async env rpc wallet signatures max_tx cache =
     finish_estimate env (length (py_prefix max_tx signatures))
       (foldl (async_step env wallet) (init_acc cache)
              (async_processed_txs rpc signatures max_tx))"

text \<open>
  Further example inputs: the 3 SOL transaction without a fee entry, and one that lowers
  the wallet's native balance by 3 SOL (fee 5000 lamports).
\<close>

definition tx_no_fee :: tx_detail where
  "tx_no_fee = tx_native\<lparr>tx_fee := None\<rparr>"

definition tx_native_out :: tx_detail where
  "tx_native_out = tx_native\<lparr>tx_pre_balances := [13000000000],
                               tx_post_balances := [10000000000]\<rparr>"

section \<open>Properties of the rate limiter\<close>







text \<open>The same run evaluated: of three requests against a limit of 2, two are admitted.\<close>

lemma admitted_three_requests:
  "admitted \<lparr>rate_limit_free = 2, rate_limit_pro = 1000, rate_limit_elite = 10000\<rparr>
     100 ''h'' Map.empty
     [(''h'', ''free'', 101), (''h'', ''free'', 102), (''h'', ''free'', 103)] = 2"
  by (simp add: check_limit_def counters_get_def tier_limit_def Let_def)

section \<open>Properties of the increment selection\<close>

text \<open>
  The loop of the selection in general: entries without a signature are dropped, and the
  scan stops at the first entry that carries the last-seen signature.
\<close>

lemma newer_than_general:
  "newer_than l xs =
     filter (\<lambda>e. truthy (signature e))
       (takeWhile (\<lambda>e. \<not> (truthy (signature e) \<and> signature e = Some l)) xs)"
  by (induction xs) auto

lemma newer_than_takeWhile:
  "\<forall>e \<in> set xs. truthy (signature e)
   \<Longrightarrow> newer_than l xs = takeWhile (\<lambda>e. signature e \<noteq> Some l) xs"
  by (induction xs) auto

text \<open>
  C9.  For every wallet and every non-empty fetched signature list (each entry carrying a
  signature id), \<open>filter_new_signatures\<close> returns the first 5 entries when the wallet has
  no last-seen signature, and otherwise exactly the prefix of entries before the first one
  equal to the last-seen signature.  In both cases the signature of the list's head is
  stored as the wallet's new last-seen signature, inside the selection itself and hence
  whatever the later alert decision is; no other wallet's entry changes.
\<close>

theorem filter_new_signatures_increment:
  assumes "signatures \<noteq> []" and "\<forall>e \<in> set signatures. truthy (signature e)"
  shows "fst (filter_new_signatures m w signatures) =
           (case m w of None \<Rightarrow> take 5 signatures
            | Some l \<Rightarrow> takeWhile (\<lambda>e. signature e \<noteq> Some l) signatures)
         \<and> snd (filter_new_signatures m w signatures) w = signature (hd signatures)
         \<and> (\<forall>w'. w' \<noteq> w \<longrightarrow> snd (filter_new_signatures m w signatures) w' = m w')"
proof -
  obtain e es where sigs: "signatures = e # es"
    using assms(1) by (cases signatures) auto
  have te: "truthy (signature e)"
    using assms(2) sigs by simp
  then obtain s where s: "signature e = Some s" "s \<noteq> []"
    by (auto simp: truthy_def split: option.splits)
  show ?thesis
    using newer_than_takeWhile [OF assms(2)] s
    by (auto simp: filter_new_signatures_def sigs Let_def split: option.splits)
qed

theorem filter_new_signatures_increment_witness:
  "[\<lparr>signature = Some ''s3'', slot = Some 3\<rparr>, \<lparr>signature = Some ''s2'', slot = Some 2\<rparr>,
    \<lparr>signature = Some ''s1'', slot = Some 1\<rparr>] \<noteq> []
   \<and> list_all (\<lambda>e. truthy (signature e))
        [\<lparr>signature = Some ''s3'', slot = Some 3\<rparr>, \<lparr>signature = Some ''s2'', slot = Some 2\<rparr>,
         \<lparr>signature = Some ''s1'', slot = Some 1\<rparr>]
   \<and> fst (filter_new_signatures [''w'' \<mapsto> ''s2''] ''w''
        [\<lparr>signature = Some ''s3'', slot = Some 3\<rparr>, \<lparr>signature = Some ''s2'', slot = Some 2\<rparr>,
         \<lparr>signature = Some ''s1'', slot = Some 1\<rparr>])
       = [\<lparr>signature = Some ''s3'', slot = Some 3\<rparr>]
   \<and> snd (filter_new_signatures [''w'' \<mapsto> ''s2''] ''w''
        [\<lparr>signature = Some ''s3'', slot = Some 3\<rparr>, \<lparr>signature = Some ''s2'', slot = Some 2\<rparr>,
         \<lparr>signature = Some ''s1'', slot = Some 1\<rparr>]) ''w'' = Some ''s3''"
proof -
  let ?sigs = "[\<lparr>signature = Some ''s3'', slot = Some 3\<rparr>,
                \<lparr>signature = Some ''s2'', slot = Some 2\<rparr>,
                \<lparr>signature = Some ''s1'', slot = Some 1\<rparr>]"
  have h1: "?sigs \<noteq> []" by simp
  have h2: "\<forall>e \<in> set ?sigs. truthy (signature e)" by (simp add: truthy_def)
  have h3: "list_all (\<lambda>e. truthy (signature e)) ?sigs" by (simp add: truthy_def)
  show ?thesis
    using filter_new_signatures_increment [OF h1 h2, of "[''w'' \<mapsto> ''s2'']" "''w''"] h3
    by simp
qed

section \<open>Properties of the seen-signature set\<close>











section \<open>Properties of the circuit breaker\<close>

lemma rotate_endpoint_circuit [simp]:
  "circuit_state (rotate_endpoint m) = circuit_state m"
  by (simp add: rotate_endpoint_def)

lemma record_failure_circuit:
  "circuit_state (record_failure n_cb t m ep) ep =
     (if n_cb \<le> failures (circuit_state m ep) + 1
      then (circuit_state m ep)\<lparr>failures := failures (circuit_state m ep) + 1,
                                state := Open, opened_at := t\<rparr>
      else (circuit_state m ep)\<lparr>failures := failures (circuit_state m ep) + 1\<rparr>)"
  by (simp add: record_failure_def Let_def)

lemma record_failures_snoc:
  "record_failures n_cb (ts @ [t]) m ep = record_failure n_cb t (record_failures n_cb ts m ep) ep"
  by (induction ts arbitrary: m) simp_all

lemma record_failures_count:
  "failures (circuit_state (record_failures n_cb ts m ep) ep)
     = failures (circuit_state m ep) + int (length ts)"
  by (induction ts arbitrary: m) (simp_all add: record_failure_circuit)

lemma record_failures_open:
  assumes "ts \<noteq> []" and "n_cb \<le> failures (circuit_state m ep) + int (length ts)"
  shows "state (circuit_state (record_failures n_cb ts m ep) ep) = Open
         \<and> opened_at (circuit_state (record_failures n_cb ts m ep) ep) = last ts"
proof -
  obtain us u where ts: "ts = us @ [u]"
    using assms(1) by (cases ts rule: rev_cases) auto
  have "n_cb \<le> failures (circuit_state (record_failures n_cb us m ep) ep) + 1"
    using assms(2) by (simp add: ts record_failures_count)
  then show ?thesis
    by (simp add: ts record_failures_snoc record_failure_circuit)
qed

lemma three_failures:
  "circuit_state (record_failures 3 [98, 99, 100] (new_manager [''a'', ''b'']) ''a'') ''a''
     = \<lparr>failures = 3, opened_at = 100, state = Open\<rparr>"
  by (simp add: record_failure_def new_manager_def closed_circuit_def rotate_endpoint_def Let_def)

text \<open>
  C6, as the code has it.  Once failures recorded one after the other bring an endpoint's
  count to \<open>RPC_CIRCUIT_BREAKER_FAILURES\<close> or more, its circuit is open with
  \<open>opened_at\<close> the instant of the last failure.  While it is open, a request with
  \<open>now - opened_at < T_pause\<close> is refused and changes nothing; the first request with
  \<open>now - opened_at \<ge> T_pause\<close> is permitted and makes the circuit half-open.  In the
  half-open state a request is permitted (and leaves the state as it is, so the number of
  permitted requests is not limited to one); a success resets the circuit to closed with
  failure count 0, and a failure reverts it to open with \<open>opened_at\<close> the instant of
  that failure.
\<close>

theorem circuit_breaker_cycle:
  "(ts \<noteq> [] \<longrightarrow> n_cb \<le> failures (circuit_state m ep) + int (length ts) \<longrightarrow>
      state (circuit_state (record_failures n_cb ts m ep) ep) = Open
      \<and> opened_at (circuit_state (record_failures n_cb ts m ep) ep) = last ts)
   \<and> (state (circuit_state m ep) = Open \<longrightarrow>
        (now - opened_at (circuit_state m ep) < pause \<longrightarrow>
           allow_request pause now m ep = (False, m))
        \<and> (pause \<le> now - opened_at (circuit_state m ep) \<longrightarrow>
             fst (allow_request pause now m ep)
             \<and> circuit_state (snd (allow_request pause now m ep)) ep
                 = (circuit_state m ep)\<lparr>state := HalfOpen\<rparr>))
   \<and> (state (circuit_state m ep) = HalfOpen \<longrightarrow>
        allow_request pause now m ep = (True, m)
        \<and> circuit_state (record_success m ep) ep
            = \<lparr>failures = 0, opened_at = 0, state = Closed\<rparr>
        \<and> (n_cb \<le> failures (circuit_state m ep) + 1 \<longrightarrow>
             state (circuit_state (record_failure n_cb t m ep) ep) = Open
             \<and> opened_at (circuit_state (record_failure n_cb t m ep) ep) = t))"
proof (intro conjI impI)
  assume "ts \<noteq> []" and "n_cb \<le> failures (circuit_state m ep) + int (length ts)"
  then show "state (circuit_state (record_failures n_cb ts m ep) ep) = Open"
    and "opened_at (circuit_state (record_failures n_cb ts m ep) ep) = last ts"
    using record_failures_open by blast+
next
  assume "state (circuit_state m ep) = Open" and "now - opened_at (circuit_state m ep) < pause"
  then show "allow_request pause now m ep = (False, m)"
    by (simp add: allow_request_def Let_def)
next
  assume o: "state (circuit_state m ep) = Open"
    and p: "pause \<le> now - opened_at (circuit_state m ep)"
  show "fst (allow_request pause now m ep)"
    using o p by (simp add: allow_request_def Let_def)
  show "circuit_state (snd (allow_request pause now m ep)) ep
          = (circuit_state m ep)\<lparr>state := HalfOpen\<rparr>"
    using o p by (simp add: allow_request_def Let_def)
next
  assume "state (circuit_state m ep) = HalfOpen"
  then show "allow_request pause now m ep = (True, m)"
    by (simp add: allow_request_def Let_def)
next
  show "circuit_state (record_success m ep) ep = \<lparr>failures = 0, opened_at = 0, state = Closed\<rparr>"
    by (simp add: record_success_def closed_circuit_def)
next
  assume "n_cb \<le> failures (circuit_state m ep) + 1"
  then show "state (circuit_state (record_failure n_cb t m ep) ep) = Open"
    and "opened_at (circuit_state (record_failure n_cb t m ep) ep) = t"
    by (simp_all add: record_failure_circuit)
qed

theorem circuit_breaker_cycle_witness:
  "[98, 99, 100::real] \<noteq> []
   \<and> 3 \<le> failures (circuit_state (new_manager [''a'', ''b'']) ''a'') + int (length [98, 99, 100::real])
   \<and> state (circuit_state (record_failures 3 [98, 99, 100] (new_manager [''a'', ''b'']) ''a'') ''a'')
        = Open
   \<and> opened_at (circuit_state (record_failures 3 [98, 99, 100] (new_manager [''a'', ''b'']) ''a'') ''a'')
        = 100
   \<and> allow_request 5 104 (record_failures 3 [98, 99, 100] (new_manager [''a'', ''b'']) ''a'') ''a''
        = (False, record_failures 3 [98, 99, 100] (new_manager [''a'', ''b'']) ''a'')
   \<and> fst (allow_request 5 106 (record_failures 3 [98, 99, 100] (new_manager [''a'', ''b'']) ''a'') ''a'')
   \<and> state (circuit_state
        (snd (allow_request 5 106
           (record_failures 3 [98, 99, 100] (new_manager [''a'', ''b'']) ''a'') ''a'')) ''a'')
        = HalfOpen
   \<and> circuit_state
        (record_success
           (snd (allow_request 5 106
              (record_failures 3 [98, 99, 100] (new_manager [''a'', ''b'']) ''a'') ''a'')) ''a'') ''a''
        = \<lparr>failures = 0, opened_at = 0, state = Closed\<rparr>
   \<and> state (circuit_state
        (record_failure 3 107
           (snd (allow_request 5 106
              (record_failures 3 [98, 99, 100] (new_manager [''a'', ''b'']) ''a'') ''a'')) ''a'') ''a'')
        = Open
   \<and> opened_at (circuit_state
        (record_failure 3 107
           (snd (allow_request 5 106
              (record_failures 3 [98, 99, 100] (new_manager [''a'', ''b'']) ''a'') ''a'')) ''a'') ''a'')
        = 107"
proof -
  let ?init = "new_manager [''a'', ''b'']"
  let ?m = "record_failures 3 [98, 99, 100] ?init ''a''"
  let ?h = "snd (allow_request 5 106 ?m ''a'')"
  have h1: "[98, 99, 100::real] \<noteq> []" by simp
  have h2: "3 \<le> failures (circuit_state ?init ''a'') + int (length [98, 99, 100::real])"
    by (simp add: new_manager_def closed_circuit_def)
  have o: "state (circuit_state ?m ''a'') = Open \<and> opened_at (circuit_state ?m ''a'') = last [98, 99, 100]"
    using circuit_breaker_cycle [where ts = "[98, 99, 100]" and n_cb = 3 and m = ?init
        and ep = "''a''"] h1 h2
    by blast
  have c: "circuit_state ?m ''a'' = \<lparr>failures = 3, opened_at = 100, state = Open\<rparr>"
    by (rule three_failures)
  have r: "allow_request 5 104 ?m ''a'' = (False, ?m)"
    using circuit_breaker_cycle [where m = ?m and ep = "''a''" and now = 104 and pause = 5] o
    by (simp add: c del: record_failures.simps)
  have a: "fst (allow_request 5 106 ?m ''a'')
           \<and> circuit_state ?h ''a'' = (circuit_state ?m ''a'')\<lparr>state := HalfOpen\<rparr>"
    using circuit_breaker_cycle [where m = ?m and ep = "''a''" and now = 106 and pause = 5] o
    by (simp add: c del: record_failures.simps)
  then have hc: "circuit_state ?h ''a'' = \<lparr>failures = 3, opened_at = 100, state = HalfOpen\<rparr>"
    by (simp add: c del: record_failures.simps)
  have hs: "state (circuit_state ?h ''a'') = HalfOpen" "(3::int) \<le> failures (circuit_state ?h ''a'') + 1"
    by (simp_all add: hc del: record_failures.simps)
  have f: "circuit_state (record_success ?h ''a'') ''a'' = \<lparr>failures = 0, opened_at = 0, state = Closed\<rparr>
           \<and> state (circuit_state (record_failure 3 107 ?h ''a'') ''a'') = Open
           \<and> opened_at (circuit_state (record_failure 3 107 ?h ''a'') ''a'') = 107"
    using circuit_breaker_cycle [where m = ?h and ep = "''a''" and n_cb = 3 and t = 107] hs
    by blast
  show ?thesis
    using h1 h2 o r a f by (simp add: c hc del: record_failures.simps)
qed

text \<open>
  The threshold condition of the half-open case holds in every reachable state: the
  invariant is true of a new manager and kept by the three operations.
\<close>

lemma breaker_inv_new: "breaker_inv n_cb (new_manager eps)"
  by (simp add: breaker_inv_def new_manager_def closed_circuit_def)

lemma breaker_inv_allow:
  assumes "breaker_inv n_cb m"
  shows "breaker_inv n_cb (snd (allow_request pause now m ep))"
  unfolding breaker_inv_def
proof
  fix e
  have "state (circuit_state m e) = Closed \<or> n_cb \<le> failures (circuit_state m e)"
    using assms by (simp add: breaker_inv_def)
  then show "state (circuit_state (snd (allow_request pause now m ep)) e) = Closed
             \<or> n_cb \<le> failures (circuit_state (snd (allow_request pause now m ep)) e)"
    by (cases "e = ep") (auto simp: allow_request_def Let_def)
qed

lemma breaker_inv_failure:
  assumes "breaker_inv n_cb m"
  shows "breaker_inv n_cb (record_failure n_cb t m ep)"
  unfolding breaker_inv_def
proof
  fix e
  have "state (circuit_state m e) = Closed \<or> n_cb \<le> failures (circuit_state m e)"
    using assms by (simp add: breaker_inv_def)
  then show "state (circuit_state (record_failure n_cb t m ep) e) = Closed
             \<or> n_cb \<le> failures (circuit_state (record_failure n_cb t m ep) e)"
    by (cases "e = ep") (auto simp: record_failure_def rotate_endpoint_def Let_def)
qed

lemma breaker_inv_success:
  assumes "breaker_inv n_cb m"
  shows "breaker_inv n_cb (record_success m ep)"
  unfolding breaker_inv_def
proof
  fix e
  have "state (circuit_state m e) = Closed \<or> n_cb \<le> failures (circuit_state m e)"
    using assms by (simp add: breaker_inv_def)
  then show "state (circuit_state (record_success m ep) e) = Closed
             \<or> n_cb \<le> failures (circuit_state (record_success m ep) e)"
    by (cases "e = ep") (auto simp: record_success_def closed_circuit_def)
qed

lemma breaker_inv_half_open:
  "breaker_inv n_cb m \<Longrightarrow> state (circuit_state m ep) = HalfOpen
   \<Longrightarrow> n_cb \<le> failures (circuit_state m ep) + 1"
proof -
  assume i: "breaker_inv n_cb m" and h: "state (circuit_state m ep) = HalfOpen"
  have "state (circuit_state m ep) = Closed \<or> n_cb \<le> failures (circuit_state m ep)"
    using i unfolding breaker_inv_def by blast
  then show ?thesis using h by auto
qed

text \<open>
  The claim's "exactly one call is permitted" fails: with three failures up to instant 100
  and a pause of 5, a request at 104 is refused, a request at 106 is permitted, and with
  no outcome recorded a second request at 107 is permitted as well, the circuit staying
  half-open.
\<close>

theorem half_open_admits_repeatedly:
  "state (circuit_state (record_failures 3 [98, 99, 100] (new_manager [''a'', ''b'']) ''a'') ''a'') = Open
   \<and> \<not> fst (allow_request 5 104 (record_failures 3 [98, 99, 100] (new_manager [''a'', ''b'']) ''a'') ''a'')
   \<and> fst (allow_request 5 106 (record_failures 3 [98, 99, 100] (new_manager [''a'', ''b'']) ''a'') ''a'')
   \<and> fst (allow_request 5 107
        (snd (allow_request 5 106
           (record_failures 3 [98, 99, 100] (new_manager [''a'', ''b'']) ''a'') ''a'')) ''a'')
   \<and> state (circuit_state
        (snd (allow_request 5 107
           (snd (allow_request 5 106
              (record_failures 3 [98, 99, 100] (new_manager [''a'', ''b'']) ''a'') ''a'')) ''a''))
        ''a'') = HalfOpen"
  by (simp add: allow_request_def record_failure_def new_manager_def closed_circuit_def
        rotate_endpoint_def Let_def)

section \<open>Properties of key deactivation on subscription deletion\<close>





section \<open>Properties of the alert gauntlet\<close>

lemma push_queue_members:
  "push_queue daas q ev = Some ys \<Longrightarrow> q = Some xs \<Longrightarrow> a \<in> set ys \<Longrightarrow> a \<in> set xs \<or> a = ev"
  by (auto simp: push_queue_def split: if_splits dest: list.set_sel(2) [rotated])

lemma push_queue_none: "(push_queue daas q ev = None) = (q = None)"
  by (simp add: push_queue_def split: option.splits)

lemma emit_alert_alerts:
  "\<exists>a. a_profit a = est_profit e \<and> a_pnl_confidence a = est_confidence e
       \<and> alerts (fst (emit_alert cfg w wr dex st b e sigs)) = alerts st @ [a]
       \<and> alerts_queue (fst (emit_alert cfg w wr dex st b e sigs))
           = push_queue (cfg_daas_mode cfg) (alerts_queue st) a"
  by (simp add: emit_alert_def Let_def split: option.splits)

lemma block_alerts [simp]:
  "alerts (block st w p r t) = alerts st" "alerts_queue (block st w p r t) = alerts_queue st"
  by (simp_all add: block_def)

lemma process_batch_alerts:
  "(alerts (fst (process_batch cfg w row st b)) = alerts st
    \<and> alerts_queue (fst (process_batch cfg w row st b)) = alerts_queue st)
   \<or> (\<exists>a. gated cfg a \<and> alerts (fst (process_batch cfg w row st b)) = alerts st @ [a]
           \<and> alerts_queue (fst (process_batch cfg w row st b))
               = push_queue (cfg_daas_mode cfg) (alerts_queue st) a)"
proof (cases "b_estimate b")
  case None
  then show ?thesis by (simp add: process_batch_def)
next
  case (Some e)
  let ?wr = "case row of None \<Rightarrow> 0 | Some r \<Rightarrow> wr_win_rate r"
  let ?dex0 = "label_from_programs (est_programs e)"
  let ?dex = "case row of None \<Rightarrow> ?dex0 | Some r \<Rightarrow> if ?dex0 = ''Unknown'' then wr_dex r else ?dex0"
  show ?thesis
  proof (cases "process_batch cfg w row st b
                  = emit_alert cfg w ?wr ?dex st b e (batch_signatures (b_sigs b))
                \<and> profit_alert_threshold cfg \<le> est_profit e
                \<and> (est_confidence e = ''med'' \<or> est_confidence e = ''high'')")
    case True
    then show ?thesis
      using emit_alert_alerts [of e cfg w ?wr ?dex st b "batch_signatures (b_sigs b)"]
      by (auto simp: gated_def)
  next
    case False
    then have "alerts (fst (process_batch cfg w row st b)) = alerts st
               \<and> alerts_queue (fst (process_batch cfg w row st b)) = alerts_queue st"
      using Some by (auto simp: process_batch_def Let_def split: if_splits)
    then show ?thesis by simp
  qed
qed

lemma push_queue_some:
  "\<exists>ys. push_queue daas (Some xs) ev = Some ys \<and> (\<forall>a \<in> set ys. a \<in> set xs \<or> a = ev)"
  by (cases xs) (auto simp: push_queue_def)

lemma process_batch_step:
  "\<exists>new. alerts (fst (process_batch cfg w row st b)) = alerts st @ new
     \<and> (\<forall>a \<in> set new. gated cfg a)
     \<and> (case alerts_queue st of
           None \<Rightarrow> alerts_queue (fst (process_batch cfg w row st b)) = None
         | Some q \<Rightarrow>
             (\<exists>q'. alerts_queue (fst (process_batch cfg w row st b)) = Some q'
                  \<and> (\<forall>a \<in> set q'. a \<in> set q \<or> gated cfg a)))"
proof -
  consider
    (same) "alerts (fst (process_batch cfg w row st b)) = alerts st"
           "alerts_queue (fst (process_batch cfg w row st b)) = alerts_queue st"
  | (emit) a where "gated cfg a"
           "alerts (fst (process_batch cfg w row st b)) = alerts st @ [a]"
           "alerts_queue (fst (process_batch cfg w row st b))
              = push_queue (cfg_daas_mode cfg) (alerts_queue st) a"
    using process_batch_alerts [of cfg w row st b] by blast
  then show ?thesis
  proof cases
    case same
    then show ?thesis by (auto split: option.splits)
  next
    case emit
    have "\<forall>x \<in> set [a]. gated cfg x"
      using emit(1) by simp
    moreover have "case alerts_queue st of
           None \<Rightarrow> alerts_queue (fst (process_batch cfg w row st b)) = None
         | Some q \<Rightarrow>
             (\<exists>q'. alerts_queue (fst (process_batch cfg w row st b)) = Some q'
                  \<and> (\<forall>a \<in> set q'. a \<in> set q \<or> gated cfg a))"
    proof (cases "alerts_queue st")
      case None
      then show ?thesis using emit(3) by (simp add: push_queue_def)
    next
      case (Some q)
      then show ?thesis
        using emit(1,3) push_queue_some [of "cfg_daas_mode cfg" q a] by auto
    qed
    ultimately show ?thesis
      using emit(2) by blast
  qed
qed

lemma process_batches_gated:
  "\<exists>new. alerts (fst (process_batches cfg w row st bs)) = alerts st @ new
     \<and> (\<forall>a \<in> set new. gated cfg a)
     \<and> (case alerts_queue st of
           None \<Rightarrow> alerts_queue (fst (process_batches cfg w row st bs)) = None
         | Some q \<Rightarrow>
             (\<exists>q'. alerts_queue (fst (process_batches cfg w row st bs)) = Some q'
                  \<and> (\<forall>a \<in> set q'. a \<in> set q \<or> gated cfg a)))"
proof (induction bs arbitrary: st)
  case Nil
  then show ?case by (simp split: option.splits)
next
  case (Cons b bs)
  obtain st1 r where pb: "process_batch cfg w row st b = (st1, r)"
    by (cases "process_batch cfg w row st b") auto
  obtain new1 where n1: "alerts st1 = alerts st @ new1" "\<forall>a \<in> set new1. gated cfg a"
    and q1: "case alerts_queue st of
           None \<Rightarrow> alerts_queue st1 = None
         | Some q \<Rightarrow> (\<exists>q'. alerts_queue st1 = Some q' \<and> (\<forall>a \<in> set q'. a \<in> set q \<or> gated cfg a))"
    using process_batch_step [of cfg w row st b, unfolded pb fst_conv] by blast
  show ?case
  proof (cases r)
    case True
    have eq: "fst (process_batches cfg w row st (b # bs)) = st1"
      using True by (simp add: pb)
    show ?thesis
      unfolding eq using n1 q1 by blast
  next
    case False
    have eq: "process_batches cfg w row st (b # bs) = process_batches cfg w row st1 bs"
      using False by (simp add: pb)
    obtain new2 where n2: "alerts (fst (process_batches cfg w row st1 bs)) = alerts st1 @ new2"
        "\<forall>a \<in> set new2. gated cfg a"
      and q2: "case alerts_queue st1 of
           None \<Rightarrow> alerts_queue (fst (process_batches cfg w row st1 bs)) = None
         | Some q \<Rightarrow> (\<exists>q'. alerts_queue (fst (process_batches cfg w row st1 bs)) = Some q'
                          \<and> (\<forall>a \<in> set q'. a \<in> set q \<or> gated cfg a))"
      using Cons.IH [of st1] by blast
    have "alerts (fst (process_batches cfg w row st1 bs)) = alerts st @ (new1 @ new2)"
      using n1 n2 by simp
    moreover have "\<forall>a \<in> set (new1 @ new2). gated cfg a"
      using n1 n2 by auto
    moreover have "case alerts_queue st of
           None \<Rightarrow> alerts_queue (fst (process_batches cfg w row st1 bs)) = None
         | Some q \<Rightarrow> (\<exists>q'. alerts_queue (fst (process_batches cfg w row st1 bs)) = Some q'
                          \<and> (\<forall>a \<in> set q'. a \<in> set q \<or> gated cfg a))"
    proof (cases "alerts_queue st")
      case None
      then show ?thesis using q1 q2 by simp
    next
      case (Some q)
      then obtain q' where q': "alerts_queue st1 = Some q'"
          "\<forall>a \<in> set q'. a \<in> set q \<or> gated cfg a"
        using q1 by auto
      then obtain q'' where "alerts_queue (fst (process_batches cfg w row st1 bs)) = Some q''"
          "\<forall>a \<in> set q''. a \<in> set q' \<or> gated cfg a"
        using q2 by auto
      then show ?thesis
        using Some q' by auto
    qed
    ultimately show ?thesis
      unfolding eq by blast
  qed
qed

lemma process_batch_refused:
  assumes "b_estimate b = Some e"
    and "est_profit e < profit_alert_threshold cfg
         \<or> (est_confidence e \<noteq> ''med'' \<and> est_confidence e \<noteq> ''high'')"
  shows "alerts (fst (process_batch cfg w row st b)) = alerts st
         \<and> alerts_queue (fst (process_batch cfg w row st b)) = alerts_queue st"
  using assms by (auto simp: process_batch_def Let_def)

text \<open>
  C1.  Every alert record that the per-wallet scan appends to the alerts list has
  \<open>profit \<ge> PROFIT_ALERT_THRESHOLD\<close> and a confidence label in \<open>{med, high}\<close>, and
  every record the scan leaves in the ring read by the API either was there before or
  satisfies both conditions; a batch whose estimate fails either condition appends nothing
  to the list or the ring.
\<close>

theorem scan_alerts_gated:
  "(\<exists>new. alerts (fst (process_batches cfg w row st bs)) = alerts st @ new
          \<and> (\<forall>a \<in> set new. gated cfg a))
   \<and> (\<forall>q. alerts_queue st = Some q \<longrightarrow>
          (\<exists>q'. alerts_queue (fst (process_batches cfg w row st bs)) = Some q'
               \<and> (\<forall>a \<in> set q'. a \<in> set q \<or> gated cfg a)))
   \<and> (\<forall>e. b_estimate b = Some e \<longrightarrow>
          (est_profit e < profit_alert_threshold cfg
           \<or> (est_confidence e \<noteq> ''med'' \<and> est_confidence e \<noteq> ''high'')) \<longrightarrow>
          alerts (fst (process_batch cfg w row st b)) = alerts st
          \<and> alerts_queue (fst (process_batch cfg w row st b)) = alerts_queue st)"
proof (intro conjI allI impI)
  show "\<exists>new. alerts (fst (process_batches cfg w row st bs)) = alerts st @ new
          \<and> (\<forall>a \<in> set new. gated cfg a)"
    using process_batches_gated [of cfg w row st bs] by blast
next
  fix q
  assume "alerts_queue st = Some q"
  then show "\<exists>q'. alerts_queue (fst (process_batches cfg w row st bs)) = Some q'
               \<and> (\<forall>a \<in> set q'. a \<in> set q \<or> gated cfg a)"
    using process_batches_gated [of cfg w row st bs] by auto
next
  fix e
  assume "b_estimate b = Some e"
    and "est_profit e < profit_alert_threshold cfg
         \<or> (est_confidence e \<noteq> ''med'' \<and> est_confidence e \<noteq> ''high'')"
  then show "alerts (fst (process_batch cfg w row st b)) = alerts st"
    and "alerts_queue (fst (process_batch cfg w row st b)) = alerts_queue st"
    using process_batch_refused by blast+
qed

lemma w_run:
  "map (\<lambda>a. (a_profit a, a_pnl_confidence a, a_signature a))
     (alerts (fst (process_batches w_cfg ''W1'' w_row w_state
        [w_batch ''s1'' 1 ''high'', w_batch ''s2'' 3 ''low'', w_batch ''s3'' 3 ''high''])))
   = [(3, ''high'', ''s3'')]"
  by (simp add: w_cfg_def w_batch_def w_state_def w_row_def process_batch_def emit_alert_def
        batch_signatures_def block_def should_alert_def label_from_programs_def
        classify_signal_def compute_zscore_def push_queue_def mark_alert_def mark_seen_def
        od_put_last_def Let_def)

theorem scan_alerts_gated_witness:
  "list_all (gated w_cfg)
     (alerts (fst (process_batches w_cfg ''W1'' w_row w_state
        [w_batch ''s1'' 1 ''high'', w_batch ''s2'' 3 ''low'', w_batch ''s3'' 3 ''high''])))
   \<and> map (\<lambda>a. (a_profit a, a_pnl_confidence a, a_signature a))
       (alerts (fst (process_batches w_cfg ''W1'' w_row w_state
          [w_batch ''s1'' 1 ''high'', w_batch ''s2'' 3 ''low'', w_batch ''s3'' 3 ''high''])))
      = [(3, ''high'', ''s3'')]
   \<and> alerts (fst (process_batch w_cfg ''W1'' w_row w_state (w_batch ''s1'' 1 ''high''))) = []"
proof -
  let ?bs = "[w_batch ''s1'' 1 ''high'', w_batch ''s2'' 3 ''low'', w_batch ''s3'' 3 ''high'']"
  let ?e = "\<lparr>est_profit = 1, est_confidence = ''high'', est_counterparties = [],
             est_programs = [], est_reasons = w_reasons\<rparr>"
  note inst = scan_alerts_gated [of w_cfg "''W1''" w_row w_state ?bs "w_batch ''s1'' 1 ''high''"]
  obtain new where "alerts (fst (process_batches w_cfg ''W1'' w_row w_state ?bs))
                      = alerts w_state @ new" "\<forall>a \<in> set new. gated w_cfg a"
    using inst by blast
  then have g: "list_all (gated w_cfg) (alerts (fst (process_batches w_cfg ''W1'' w_row w_state ?bs)))"
    by (simp add: w_state_def list_all_iff)
  have h1: "b_estimate (w_batch ''s1'' 1 ''high'') = Some ?e"
    by (simp add: w_batch_def)
  have h2: "est_profit ?e < profit_alert_threshold w_cfg"
    by (simp add: w_cfg_def)
  have "alerts (fst (process_batch w_cfg ''W1'' w_row w_state (w_batch ''s1'' 1 ''high'')))
          = alerts w_state"
    using inst h1 h2 by blast
  then have r: "alerts (fst (process_batch w_cfg ''W1'' w_row w_state (w_batch ''s1'' 1 ''high''))) = []"
    by (simp add: w_state_def)
  show ?thesis
    using g r w_run by blast
qed

section \<open>Properties of the signal API\<close>

lemma last_100_length: "length (last_100 xs) \<le> 100"
  by (simp add: last_100_def)


lemma w_free_response:
  "handle_signals w_hash w_keys w_limits Map.empty 1000 0 (Some ''daas_free'') [w_alert]
     = (\<lparr>resp_status = 200,
         resp_headers = [(''Content-type'', HStr ''application/json''),
                         (''X-RateLimit-Remaining'', HInt 10), (''X-RateLimit-Limit'', HInt 10)],
         resp_payload = SignalsPayload [w_alert] 1\<rparr>,
        [''#daas_free'' \<mapsto> (1, 1000)])"
  by (simp add: handle_signals_def authenticate_def validate_key_def w_hash_def w_keys_def
        w_limits_def check_limit_def counters_get_def tier_limit_def last_100_def Let_def)



section \<open>Properties of the profit estimator\<close>




lemma token_abs_sum_nonneg: "0 \<le> token_abs_sum env w cache txs"
  by (induction txs arbitrary: cache) (simp_all add: add_nonneg_nonneg)













lemmas estimator_eval =
  estimate_profit_enriched_def enriched_acc_def processed_txs_def py_prefix_def
  init_acc_def enriched_step_def finish_estimate_def lamport_change_def all_tokens_this_tx_def
  estimate_token_delta_def program_set_def fee_lamports_def balance_alignment_of_def
  confidence_label_def get_price_def WSOL_MINT_def Let_def














section \<open>The asynchronous estimator against the synchronous one\<close>

lemma async_fold_fee_known:
  "acc_fee_known (foldl (async_step env w) acc txs) = acc_fee_known acc"
proof (induction txs arbitrary: acc)
  case Nil
  then show ?case by simp
next
  case (Cons tx txs)
  have "acc_fee_known (async_step env w acc tx) = acc_fee_known acc"
    by (simp add: async_step_def Let_def split: prod.splits)
  then show ?case
    using Cons.IH [of "async_step env w acc tx"] by simp
qed

text \<open>
  In \<open>estimate_profit_async\<close> the flag \<open>fee_known\<close> keeps its initial value: the
  sub-metric \<open>fee_completeness\<close> is 1 for every input, also when a fee is missing.
\<close>

lemma async_fee_completeness_constant:
  "cr_fee_completeness (est_reasons (fst (estimate_profit_async env rpc w sigs max_tx cache))) = 1"
  by (simp add: estimate_profit_async_def finish_estimate_def Let_def async_fold_fee_known
        init_acc_def)

lemmas async_eval =
  estimate_profit_async_def async_processed_txs_def async_step_def py_prefix_def
  init_acc_def finish_estimate_def lamport_change_def all_tokens_this_tx_def
  estimate_token_delta_def fee_lamports_def balance_alignment_of_def
  confidence_label_def get_price_def Let_def

text \<open>
  On a transaction without a fee entry the synchronous estimator reports
  \<open>fee_completeness = 0\<close> (label \<open>med\<close>), the asynchronous one \<open>1\<close> (label \<open>high\<close>).
\<close>

lemma missing_fee_sync_async:
  "cr_fee_completeness (est_reasons
     (fst (estimate_profit_enriched env0 (\<lambda>_. Some tx_no_fee) ''W1'' [sig0] 5 Map.empty))) = 0
   \<and> est_confidence
       (fst (estimate_profit_enriched env0 (\<lambda>_. Some tx_no_fee) ''W1'' [sig0] 5 Map.empty)) = ''med''
   \<and> cr_fee_completeness (est_reasons
       (fst (estimate_profit_async env0 (\<lambda>_ _. Some tx_no_fee) ''W1'' [sig0] 5 Map.empty))) = 1
   \<and> est_confidence
       (fst (estimate_profit_async env0 (\<lambda>_ _. Some tx_no_fee) ''W1'' [sig0] 5 Map.empty)) = ''high''"
  by (simp add: estimator_eval async_eval env0_def tx_native_def tx_no_fee_def sig0_def)

text \<open>
  On a transaction that lowers the native balance by 3 SOL and one that raises it by 3 SOL
  the synchronous estimator accumulates \<open>sol_delta_sum = 6\<close>, the asynchronous one 0.
\<close>

lemma signed_sum_sync_async:
  "acc_sol_delta_sum (enriched_acc env0 (\<lambda>s. if s = ''s1'' then Some tx_native else Some tx_native_out)
                        ''W1'' [sig0, \<lparr>signature = Some ''s2'', slot = Some 6\<rparr>] 5 Map.empty) = 6
   \<and> acc_sol_delta_sum
       (foldl (async_step env0 ''W1'') (init_acc Map.empty)
          (async_processed_txs (\<lambda>s _. if s = ''s1'' then Some tx_native else Some tx_native_out)
             [sig0, \<lparr>signature = Some ''s2'', slot = Some 6\<rparr>] 5)) = 0"
  by (simp add: estimator_eval async_eval env0_def tx_native_def tx_native_out_def sig0_def)

end
